theory Spec2Isabelle
  imports Main "HOL-Library.Sublist"
begin

section \<open>Common conventions\<close>

text \<open>
  Go pointers are options (\<open>None\<close> is nil), a Go \<open>(value, error)\<close> result is a sum with
  the error on the left, and a Go \<open>error\<close> is the text its \<open>Error()\<close> method gives.
  A nil pointer dereference is a panic, made explicit as a value.
\<close>

type_synonym error = string

datatype panic = NilPointerDereference

section \<open>Strings helpers of the Go standard library\<close>

definition HasPrefix :: "string \<Rightarrow> string \<Rightarrow> bool" where
  "HasPrefix s p = (take (length p) s = p)"

fun Contains :: "string \<Rightarrow> string \<Rightarrow> bool" where
  "Contains [] sub = (sub = [])"
| "Contains (c # cs) sub = (HasPrefix (c # cs) sub \<or> Contains cs sub)"

text \<open>\<open>strings.SplitN(s, "=", 2)[0]\<close>: the text before the first \<open>=\<close>, all of \<open>s\<close> without one.\<close>

definition SplitN2_head :: "string \<Rightarrow> string" where
  "SplitN2_head s = takeWhile (\<lambda>c. c \<noteq> CHR ''='') s"

section \<open>Machine type client responses (generated SDK)\<close>

type_synonym Header = "(string \<times> string list) list"

record 'm MachineTypeGetResponse =
  status :: int
  header :: "Header option"
  err :: "error option"
  body :: "'m option"

record 'm MachineTypePollResponse =
  response :: "'m MachineTypeGetResponse option"

definition MachineTypeGetResponse_Status :: "'m MachineTypeGetResponse option \<Rightarrow> int" where
  "MachineTypeGetResponse_Status r = (case r of None \<Rightarrow> 0 | Some g \<Rightarrow> status g)"

definition MachineTypeGetResponse_Header :: "'m MachineTypeGetResponse option \<Rightarrow> Header option" where
  "MachineTypeGetResponse_Header r = (case r of None \<Rightarrow> None | Some g \<Rightarrow> header g)"

definition MachineTypeGetResponse_Error :: "'m MachineTypeGetResponse option \<Rightarrow> error option" where
  "MachineTypeGetResponse_Error r = (case r of None \<Rightarrow> None | Some g \<Rightarrow> err g)"

definition MachineTypeGetResponse_Body :: "'m MachineTypeGetResponse option \<Rightarrow> 'm option" where
  "MachineTypeGetResponse_Body r = (case r of None \<Rightarrow> None | Some g \<Rightarrow> body g)"

text \<open>\<open>ok = r != nil && r.body != nil; if ok { value = r.body }\<close>\<close>

definition MachineTypeGetResponse_GetBody ::
  "'m MachineTypeGetResponse option \<Rightarrow> 'm option \<times> bool" where
  "MachineTypeGetResponse_GetBody r =
     (let ok = (r \<noteq> None \<and> body (the r) \<noteq> None)
      in (if ok then body (the r) else None, ok))"

text \<open>
  The poll response guards \<open>Status\<close>, \<open>Header\<close> and \<open>Error\<close> with \<open>if r == nil\<close>;
  \<open>Body\<close> and \<open>GetBody\<close> read \<open>r.response\<close> with no guard, which panics on a nil
  receiver.
\<close>

definition MachineTypePollResponse_Status ::
  "'m MachineTypePollResponse option \<Rightarrow> panic + int" where
  "MachineTypePollResponse_Status r =
     (case r of None \<Rightarrow> Inr 0 | Some p \<Rightarrow> Inr (MachineTypeGetResponse_Status (response p)))"

definition MachineTypePollResponse_Header ::
  "'m MachineTypePollResponse option \<Rightarrow> panic + Header option" where
  "MachineTypePollResponse_Header r =
     (case r of None \<Rightarrow> Inr None | Some p \<Rightarrow> Inr (MachineTypeGetResponse_Header (response p)))"

definition MachineTypePollResponse_Error ::
  "'m MachineTypePollResponse option \<Rightarrow> panic + error option" where
  "MachineTypePollResponse_Error r =
     (case r of None \<Rightarrow> Inr None | Some p \<Rightarrow> Inr (MachineTypeGetResponse_Error (response p)))"

definition MachineTypePollResponse_Body ::
  "'m MachineTypePollResponse option \<Rightarrow> panic + 'm option" where
  "MachineTypePollResponse_Body r =
     (case r of None \<Rightarrow> Inl NilPointerDereference
      | Some p \<Rightarrow> Inr (MachineTypeGetResponse_Body (response p)))"

definition MachineTypePollResponse_GetBody ::
  "'m MachineTypePollResponse option \<Rightarrow> panic + ('m option \<times> bool)" where
  "MachineTypePollResponse_GetBody r =
     (case r of None \<Rightarrow> Inl NilPointerDereference
      | Some p \<Rightarrow> Inr (MachineTypeGetResponse_GetBody (response p)))"

section \<open>Command line arguments: ParseKnownFlags\<close>

text \<open>
  A flag set maps a flag name to the flag; of a flag the code reads only the type of its
  value. \<open>flags.Parse\<close> and \<open>GetBool\<close> belong to the flag library and \<open>%q\<close> to the
  formatting library, so they are parameters: \<open>Parse\<close> returns the error or the updated
  flag set, \<open>Quote\<close> is the quoting done by \<open>%q\<close>.
\<close>

record Flag =
  ValueType :: string
  Value :: string

type_synonym FlagSet = "string \<Rightarrow> Flag option"

definition ErrHelp :: error where
  "ErrHelp = ''pflag: help requested''"

record scan =
  validArgs :: "string list"
  upcomingValue :: bool
  unknownFlags :: string

text \<open>One iteration of the loop over \<open>argv\<close>: the five cases of the \<open>switch\<close>, in order.\<close>

definition scanArg :: "(string \<Rightarrow> string) \<Rightarrow> FlagSet \<Rightarrow> bool \<Rightarrow> scan \<Rightarrow> string \<Rightarrow> scan" where
  "scanArg Quote flags failOnUnknown s arg =
    (if HasPrefix arg ''--'' \<and> \<not> Contains arg ''='' then
       (let flagName = drop 2 arg in
        case flags flagName of
          Some flag \<Rightarrow>
            s\<lparr>validArgs := validArgs s @ [arg],
              upcomingValue := (if ValueType flag \<noteq> ''bool'' then True else upcomingValue s)\<rparr>
        | None \<Rightarrow>
            if failOnUnknown then s\<lparr>unknownFlags := unknownFlags s @ Quote flagName @ '', ''\<rparr>
            else s)
     else if HasPrefix arg ''--'' \<and> Contains arg ''='' then
       (let flagName = SplitN2_head (drop 2 arg) in
        (case flags flagName of
           Some flag \<Rightarrow> s\<lparr>validArgs := validArgs s @ [arg]\<rparr>
         | None \<Rightarrow>
             if failOnUnknown then s\<lparr>unknownFlags := unknownFlags s @ Quote flagName @ '', ''\<rparr>
             else s)
        \<lparr>upcomingValue := False\<rparr>)
     else if HasPrefix arg ''-'' \<and> \<not> Contains arg ''='' then
       (let flagName = drop 1 arg in
        case flags flagName of
          Some flag \<Rightarrow>
            s\<lparr>validArgs := validArgs s @ [arg],
              upcomingValue := (if ValueType flag \<noteq> ''bool'' then True else upcomingValue s)\<rparr>
        | None \<Rightarrow>
            if failOnUnknown then s\<lparr>unknownFlags := unknownFlags s @ Quote flagName @ '', ''\<rparr>
            else s)
     else if HasPrefix arg ''-'' \<and> Contains arg ''='' then
       (let flagName = SplitN2_head (drop 1 arg) in
        (case flags flagName of
           Some flag \<Rightarrow> s\<lparr>validArgs := validArgs s @ [arg]\<rparr>
         | None \<Rightarrow>
             if failOnUnknown then s\<lparr>unknownFlags := unknownFlags s @ Quote flagName @ '', ''\<rparr>
             else s)
        \<lparr>upcomingValue := False\<rparr>)
     else if upcomingValue s then
       s\<lparr>validArgs := validArgs s @ [arg], upcomingValue := False\<rparr>
     else s)"

primrec scanArgs ::
  "(string \<Rightarrow> string) \<Rightarrow> FlagSet \<Rightarrow> bool \<Rightarrow> string list \<Rightarrow> scan \<Rightarrow> scan" where
  "scanArgs Quote flags failOnUnknown [] s = s"
| "scanArgs Quote flags failOnUnknown (arg # argv) s =
     scanArgs Quote flags failOnUnknown argv (scanArg Quote flags failOnUnknown s arg)"

text \<open>
  The result is the returned error (\<open>None\<close> is nil), the flag set afterwards and the lines
  printed with \<open>cmd.Println\<close>.
\<close>

definition ParseKnownFlags ::
  "(string \<Rightarrow> string) \<Rightarrow> (FlagSet \<Rightarrow> string list \<Rightarrow> error + FlagSet) \<Rightarrow>
   (FlagSet \<Rightarrow> string \<Rightarrow> error + bool) \<Rightarrow>
   FlagSet \<Rightarrow> string list \<Rightarrow> bool \<Rightarrow> error option \<times> FlagSet \<times> string list" where
  "ParseKnownFlags Quote Parse GetBool flags argv failOnUnknown =
    (let s = scanArgs Quote flags failOnUnknown argv
               \<lparr>validArgs = [], upcomingValue = False, unknownFlags = ''''\<rparr>
     in if failOnUnknown \<and> unknownFlags s \<noteq> '''' then
          (Some (''Unknown flags passed: '' @ take (length (unknownFlags s) - 2) (unknownFlags s)),
           flags, [])
        else
          case Parse flags (validArgs s) of
            Inl e \<Rightarrow> (Some e, flags, [])
          | Inr flags' \<Rightarrow>
              (case GetBool flags' ''help'' of
                 Inl e \<Rightarrow>
                   (Some e, flags',
                    [[CHR 0x22] @ ''help'' @ [CHR 0x22] @
                     '' flag declared as non-bool. Please correct your code''])
               | Inr helpVal \<Rightarrow> if helpVal then (Some ErrHelp, flags', []) else (None, flags', [])))"

text \<open>
  What the code treats as a flag and as its name: an argument starting with \<open>-\<close>; the
  name is what follows the one or two dashes, up to the first \<open>=\<close>. An unknown flag is
  one whose name the flag set does not have.
\<close>

definition flagNameOf :: "string \<Rightarrow> string" where
  "flagNameOf arg = SplitN2_head (drop (if HasPrefix arg ''--'' then 2 else 1) arg)"

definition unknownNames :: "FlagSet \<Rightarrow> string list \<Rightarrow> string list" where
  "unknownNames flags argv =
     map flagNameOf (filter (\<lambda>arg. HasPrefix arg ''-'' \<and> flags (flagNameOf arg) = None) argv)"

text \<open>The names joined by a comma and a space, as the error message lists them.\<close>

fun joinNames :: "string list \<Rightarrow> string" where
  "joinNames [] = ''''"
| "joinNames [n] = n"
| "joinNames (n # m # ns) = n @ '', '' @ joinNames (m # ns)"

text \<open>A concrete flag set and quoting, for evaluating the parser on an example.\<close>

definition flags0 :: FlagSet where
  "flags0 = [''help'' \<mapsto> \<lparr>ValueType = ''bool'', Value = ''false''\<rparr>,
             ''cluster'' \<mapsto> \<lparr>ValueType = ''string'', Value = ''''\<rparr>]"

definition Quote0 :: "string \<Rightarrow> string" where
  "Quote0 s = [CHR 0x22] @ s @ [CHR 0x22]"

section \<open>Commands: outcomes, events and sequencing\<close>

text \<open>
  A command either calls \<open>os.Exit\<close> with a code or returns a value. What it does to the
  outside world is recorded, in order, as a list of events: the messages of the reporter,
  the lines printed, the questions asked, and every call to the cluster service or the
  cloud API. The answers of the outside world are parameters of the command; an answer that
  is asked for inside a loop is a function of the events so far, so that it may change as
  the command acts.
\<close>

record NodePoolAutoscaling =
  MinReplica :: "int option"
  MaxReplica :: "int option"

record NodePool =
  npID :: "string option"
  npAutoscaling :: "NodePoolAutoscaling option"
  npReplicas :: "int option"

datatype event =
    Errorf string
  | Warnf string
  | Infof string
  | Debugf string
  | Println string
  | Ask string
  | ConfirmPrompt string bool
  | RemoteRead string
  | CallCheckRoleExists string bool
  | CallGeneratePolicyFiles
  | CallBuildOperatorRoleCommands
  | CallBuildMissingOperatorRoleCommand
  | CallUpgradeOperatorRolePolicies string
  | CallLogEvent string
  | CallEnsureRole string
  | CallAttachRolePolicy string string
  | CallSetModeKey string
  | DisplaySpinnerWithDelay
  | CallCreateNodePool NodePool
  | CallUpdateNodePool NodePool

datatype 'a outcome = Exit int | Return 'a

type_synonym 'a prog = "event list \<Rightarrow> 'a outcome \<times> event list"

definition ret :: "'a \<Rightarrow> 'a prog" where
  "ret a h = (Return a, h)"

definition osExit :: "int \<Rightarrow> 'a prog" where
  "osExit c h = (Exit c, h)"

definition emit :: "event \<Rightarrow> unit prog" where
  "emit e h = (Return (), h @ [e])"

definition ask :: "(event list \<Rightarrow> 'a) \<Rightarrow> 'a prog" where
  "ask f h = (Return (f h), h)"

definition andThen :: "'a prog \<Rightarrow> ('a \<Rightarrow> 'b prog) \<Rightarrow> 'b prog" where
  "andThen m f h = (case m h of (Exit c, h') \<Rightarrow> (Exit c, h') | (Return a, h') \<Rightarrow> f a h')"

definition followedBy :: "unit prog \<Rightarrow> 'b prog \<Rightarrow> 'b prog" where
  "followedBy m k = andThen m (\<lambda>_. k)"

text \<open>\<open>r.Reporter.Errorf(...); os.Exit(1)\<close>\<close>

definition fail :: "string \<Rightarrow> 'a prog" where
  "fail msg = followedBy (emit (Errorf msg)) (osExit 1)"

text \<open>A prompt of the interactive package: the question is recorded, an error ends the command.\<close>

definition prompt :: "string \<Rightarrow> error + 'a \<Rightarrow> string \<Rightarrow> 'a prog" where
  "prompt question answer complaint =
     followedBy (emit (Ask question))
       (case answer of Inl e \<Rightarrow> fail (complaint @ e) | Inr v \<Rightarrow> ret v)"

section \<open>Node pools: create and edit\<close>

record args =
  replicas :: int
  minReplicas :: int
  maxReplicas :: int
  autoscalingEnabled :: bool

text \<open>The command as the code reads it: the flags set on the command line and their values.\<close>

record cmd =
  changed :: "string list"
  flagArgs :: args

definition Changed :: "cmd \<Rightarrow> string \<Rightarrow> bool" where
  "Changed c name = (name \<in> set (changed c))"

record interactive =
  interactive_Enabled :: bool
  interactive_GetBool :: "string \<Rightarrow> bool \<Rightarrow> error + bool"
  interactive_GetInt :: "string \<Rightarrow> int \<Rightarrow> bool \<Rightarrow> error + int"

text \<open>
  The cluster service client and the SDK builder are not part of the sources: their results
  are parameters. \<open>Build\<close> is the builder's \<open>Build()\<close>, which either fails or gives the
  object with the fields the builder was given.
\<close>

record ocm =
  GetNodePool :: "string \<Rightarrow> error + NodePool"
  Build :: "NodePool \<Rightarrow> error option"
  CreateNodePool :: "NodePool \<Rightarrow> error + string"
  UpdateNodePool :: "NodePool \<Rightarrow> error option"

definition NewNodePool :: NodePool where
  "NewNodePool = \<lparr>npID = None, npAutoscaling = None, npReplicas = None\<rparr>"

definition NewNodePoolAutoscaling :: NodePoolAutoscaling where
  "NewNodePoolAutoscaling = \<lparr>MinReplica = None, MaxReplica = None\<rparr>"

text \<open>The SDK getters give the zero value for an absent field and on a nil receiver.\<close>

definition getMinReplica :: "NodePoolAutoscaling option \<Rightarrow> int" where
  "getMinReplica a = (case a of None \<Rightarrow> 0 | Some x \<Rightarrow> (case MinReplica x of None \<Rightarrow> 0 | Some v \<Rightarrow> v))"

definition getMaxReplica :: "NodePoolAutoscaling option \<Rightarrow> int" where
  "getMaxReplica a = (case a of None \<Rightarrow> 0 | Some x \<Rightarrow> (case MaxReplica x of None \<Rightarrow> 0 | Some v \<Rightarrow> v))"

definition getReplicas :: "NodePool \<Rightarrow> int" where
  "getReplicas np = (case npReplicas np of None \<Rightarrow> 0 | Some v \<Rightarrow> v)"

definition getID :: "NodePool \<Rightarrow> string" where
  "getID np = (case npID np of None \<Rightarrow> '''' | Some v \<Rightarrow> v)"

definition addNodePool :: "cmd \<Rightarrow> interactive \<Rightarrow> ocm \<Rightarrow> string \<Rightarrow> string \<Rightarrow> unit prog" where
  "addNodePool c i client clusterKey clusterID =
    (if Changed c ''multi-availability-zone'' then
       fail ''Setting the `multi-availability-zone` flag is not yet supported for hosted clusters''
     else if Changed c ''availability-zone'' then
       fail ''Setting the `availability-zone` flag is not yet supported for hosted clusters''
     else if Changed c ''subnet'' then
       fail ''Setting the `subnet` flag is not yet supported for hosted clusters''
     else if Changed c ''name'' then
       fail ''Setting the `name` is not supported for hosted clusters''
     else
      (let isMinReplicasSet = Changed c ''min-replicas'';
           isMaxReplicasSet = Changed c ''max-replicas'';
           isAutoscalingSet = Changed c ''enable-autoscaling'';
           isReplicasSet = Changed c ''replicas'';
           minReplicas0 = minReplicas (flagArgs c);
           maxReplicas0 = maxReplicas (flagArgs c);
           autoscaling0 = autoscalingEnabled (flagArgs c);
           replicas0 = replicas (flagArgs c)
       in
       andThen
        (if \<not> isReplicasSet \<and> \<not> autoscaling0 \<and> \<not> isAutoscalingSet \<and> interactive_Enabled i then
           prompt ''Enable autoscaling'' (interactive_GetBool i ''Enable autoscaling'' autoscaling0)
             ''Expected a valid value for enable-autoscaling: ''
         else ret autoscaling0)
        (\<lambda>autoscaling.
       andThen
        (if autoscaling then
           (if isReplicasSet then fail ''Replicas can't be set when autoscaling is enabled''
            else
              andThen
               (if interactive_Enabled i \<or> \<not> isMinReplicasSet then
                  prompt ''Min replicas'' (interactive_GetInt i ''Min replicas'' minReplicas0 True)
                    ''Expected a valid number of min replicas: ''
                else ret minReplicas0)
               (\<lambda>minReplicas1.
              andThen
               (if interactive_Enabled i \<or> \<not> isMaxReplicasSet then
                  prompt ''Max replicas'' (interactive_GetInt i ''Max replicas'' maxReplicas0 True)
                    ''Expected a valid number of max replicas: ''
                else ret maxReplicas0)
               (\<lambda>maxReplicas1. ret (replicas0, minReplicas1, maxReplicas1))))
         else
           (if isMinReplicasSet \<or> isMaxReplicasSet then
              fail ''Autoscaling must be enabled in order to set min and max replicas''
            else
              andThen
               (if interactive_Enabled i \<or> \<not> isReplicasSet then
                  prompt ''Replicas'' (interactive_GetInt i ''Replicas'' replicas0 True)
                    ''Expected a valid number of replicas: ''
                else ret replicas0)
               (\<lambda>replicas1. ret (replicas1, minReplicas0, maxReplicas0))))
        (\<lambda>(replicas1, minReplicas1, maxReplicas1).
          (let npBuilder =
                 (if autoscaling then
                    NewNodePool\<lparr>npAutoscaling :=
                      Some (NewNodePoolAutoscaling\<lparr>MinReplica := Some minReplicas1,
                                                   MaxReplica := Some maxReplicas1\<rparr>)\<rparr>
                  else NewNodePool\<lparr>npReplicas := Some replicas1\<rparr>)
           in
           case Build client npBuilder of
             Some e \<Rightarrow>
               fail (''Failed to create machine pool for hosted cluster '' @ clusterKey @ '': '' @ e)
           | None \<Rightarrow>
               (let nodePool = npBuilder in
               followedBy (emit (CallCreateNodePool nodePool))
                (case CreateNodePool client nodePool of
                   Inl e \<Rightarrow>
                     fail (''Failed to add machine pool to hosted cluster '' @ clusterKey @ '': '' @ e)
                 | Inr createdID \<Rightarrow>
                     followedBy
                      (emit (Infof (''Machine pool '' @ createdID @
                                    '' created successfully on hosted cluster '' @ clusterKey)))
                      (emit (Infof (''To view all machine pools, run 'rosa list machinepools -c ''
                                    @ clusterKey @ [CHR 0x27]))))))))))"

definition getNodePoolReplicas ::
  "cmd \<Rightarrow> interactive \<Rightarrow> string \<Rightarrow> int \<Rightarrow> NodePoolAutoscaling option \<Rightarrow>
   (bool \<times> int \<times> int \<times> int) prog" where
  "getNodePoolReplicas c i nodePoolID existingReplicas existingAutoscaling =
    (let isMinReplicasSet = Changed c ''min-replicas'';
         isMaxReplicasSet = Changed c ''max-replicas'';
         isReplicasSet = Changed c ''replicas'';
         isAutoscalingSet = Changed c ''enable-autoscaling'';
         replicas0 = replicas (flagArgs c);
         minReplicas0 = minReplicas (flagArgs c);
         maxReplicas0 = maxReplicas (flagArgs c);
         autoscaling0 = autoscalingEnabled (flagArgs c);
         replicasRequired = (existingAutoscaling = None)
     in
     if (isMinReplicasSet \<or> isMaxReplicasSet) \<and> \<not> autoscaling0 \<and> existingAutoscaling = None then
       fail (''Autoscaling is not enabled on machine pool '' @ nodePoolID @
             ''. can't set min or max replicas'')
     else
       andThen
        (if \<not> isAutoscalingSet then
           (if interactive_Enabled i then
              prompt ''Enable autoscaling''
                (interactive_GetBool i ''Enable autoscaling'' (existingAutoscaling \<noteq> None))
                ''Expected a valid value for enable-autoscaling: ''
            else ret (existingAutoscaling \<noteq> None))
         else ret autoscaling0)
        (\<lambda>autoscaling.
          if autoscaling then
            andThen
             (if \<not> isMinReplicasSet \<and> (interactive_Enabled i \<or> \<not> isMaxReplicasSet) then
                prompt ''Min replicas''
                  (interactive_GetInt i ''Min replicas'' (getMinReplica existingAutoscaling)
                     replicasRequired)
                  ''Expected a valid number of min replicas: ''
              else ret minReplicas0)
             (\<lambda>minReplicas1.
            andThen
             (if \<not> isMaxReplicasSet \<and> (interactive_Enabled i \<or> \<not> isMinReplicasSet) then
                prompt ''Max replicas''
                  (interactive_GetInt i ''Max replicas'' (getMaxReplica existingAutoscaling)
                     replicasRequired)
                  ''Expected a valid number of max replicas: ''
              else ret maxReplicas0)
             (\<lambda>maxReplicas1. ret (autoscaling, replicas0, minReplicas1, maxReplicas1)))
          else if interactive_Enabled i \<or> \<not> isReplicasSet then
            andThen
             (prompt ''Replicas''
                (interactive_GetInt i ''Replicas''
                   (if \<not> isReplicasSet then existingReplicas else replicas0) True)
                ''Expected a valid number of replicas: '')
             (\<lambda>replicas1. ret (autoscaling, replicas1, minReplicas0, maxReplicas0))
          else ret (autoscaling, replicas0, minReplicas0, maxReplicas0)))"

definition editNodePool ::
  "cmd \<Rightarrow> interactive \<Rightarrow> ocm \<Rightarrow> string \<Rightarrow> string \<Rightarrow> unit prog" where
  "editNodePool c i client nodePoolID clusterKey =
    followedBy (emit (Debugf (''Loading machine pool for hosted cluster '' @ clusterKey)))
     (followedBy (emit (RemoteRead ''GetNodePool''))
      (case GetNodePool client nodePoolID of
         Inl e \<Rightarrow>
           fail (''Failed to get machine pools for hosted cluster '' @ clusterKey @ '': '' @ e)
       | Inr nodePool \<Rightarrow>
           andThen
            (getNodePoolReplicas c i nodePoolID (getReplicas nodePool) (npAutoscaling nodePool))
            (\<lambda>(autoscaling, replicas1, minReplicas1, maxReplicas1).
              if (\<not> autoscaling \<and> replicas1 < 0) \<or>
                 (autoscaling \<and> Changed c ''min-replicas'' \<and> minReplicas1 < 0) then
                fail ''The number of machine pool replicas needs to be a non-negative integer''
              else
                (let npBuilder0 = NewNodePool\<lparr>npID := Some (getID nodePool)\<rparr>;
                     asBuilder0 = NewNodePoolAutoscaling;
                     asBuilder1 = (if minReplicas1 > 0
                                   then asBuilder0\<lparr>MinReplica := Some minReplicas1\<rparr>
                                   else asBuilder0);
                     asBuilder2 = (if maxReplicas1 > 0
                                   then asBuilder1\<lparr>MaxReplica := Some maxReplicas1\<rparr>
                                   else asBuilder1);
                     npBuilder = (if autoscaling
                                  then npBuilder0\<lparr>npAutoscaling := Some asBuilder2\<rparr>
                                  else npBuilder0\<lparr>npReplicas := Some replicas1\<rparr>)
                 in
                 case Build client npBuilder of
                   Some e \<Rightarrow>
                     fail (''Failed to create machine pool for hosted cluster '' @ clusterKey @
                           '': '' @ e)
                 | None \<Rightarrow>
                     (let built = npBuilder in
                     followedBy
                      (emit (Debugf (''Updating machine pool '' @ getID built @
                                     '' on hosted cluster '' @ clusterKey)))
                      (followedBy (emit (CallUpdateNodePool built))
                        (case UpdateNodePool client built of
                           Some e \<Rightarrow>
                             fail (''Failed to update machine pool '' @ getID built @
                                   '' on hosted cluster '' @ clusterKey @ '': '' @ e)
                         | None \<Rightarrow>
                             emit (Infof (''Updated machine pool '' @ getID built @
                                          '' on hosted cluster '' @ clusterKey)))))))))"



text \<open>Concrete node pool inputs, for evaluating the commands on examples.\<close>

definition i0 :: interactive where
  "i0 = \<lparr>interactive_Enabled = False, interactive_GetBool = (\<lambda>q d. Inr d),
         interactive_GetInt = (\<lambda>q d r. Inr (d + 1))\<rparr>"

definition np0 :: NodePool where
  "np0 = \<lparr>npID = Some ''np'',
          npAutoscaling = Some \<lparr>MinReplica = Some 2, MaxReplica = Some 4\<rparr>, npReplicas = None\<rparr>"

definition ocm0 :: ocm where
  "ocm0 = \<lparr>GetNodePool = (\<lambda>n. Inr np0), Build = (\<lambda>b. None),
           CreateNodePool = (\<lambda>n. Inr ''np1''), UpdateNodePool = (\<lambda>n. None)\<rparr>"

definition cmd_replicas_autoscaling :: cmd where
  "cmd_replicas_autoscaling =
     \<lparr>changed = [''replicas'', ''enable-autoscaling'', ''min-replicas'', ''max-replicas''],
      flagArgs = \<lparr>replicas = 3, minReplicas = 1, maxReplicas = 5, autoscalingEnabled = True\<rparr>\<rparr>"









section \<open>Operator roles upgrade\<close>

record STSOperator =
  opName :: string
  opNamespace :: string
  opMinVersion :: string

record OperatorIAMRole =
  roleName :: string
  roleNamespace :: string

record Cluster =
  clusterID :: string
  versionRawID :: string
  hypershiftEnabled :: bool
  operatorIAMRoles :: "OperatorIAMRole list option"
  stsRoleARN :: string

text \<open>The two modes of the cloud package, whose declarations are not part of the sources.\<close>

definition ModeAuto :: string where
  "ModeAuto = ''auto''"

definition ModeManual :: string where
  "ModeManual = ''manual''"

text \<open>
  The world the command runs in: the command line, the answers of the terminal, and the
  results of the calls to the cluster service and to the cloud API. A Go map is a list of
  its entries in the order the loop meets them; every loop over the map meets them in this
  one order, where Go may take another order at each loop. An answer asked for inside a loop depends on
  the events so far.
\<close>

record world =
  GetMode :: "error + string"
  GetClusterKey :: string
  GetDefaultVersion :: "error + string"
  FetchCluster :: Cluster
  upgradeVersion :: string
  GetAvailableUpgrades :: "error + string list"
  GetPrefixFromInstallerAccountRole :: "string \<times> error option"
  GetPathFromAccountRole :: "error + string"
  IsUpgradedNeededForAccountRolePolicies :: "error + bool"
  GetCredRequests :: "error + (string \<times> STSOperator) list"
  IsUpgradedNeededForOperatorRolePoliciesUsingPrefix :: "error + bool"
  FindMissingOperatorRolesForUpgrade :: "string \<Rightarrow> error + (string \<times> STSOperator) list"
  interactiveEnabled :: bool
  modeFlagChanged :: bool
  GetPolicies :: "error + (string \<Rightarrow> string option)"
  GetEnv :: "error + string"
  GetOption :: "error + string"
  CreatorAccountID :: string
  IsTerminal :: bool
  confirmPrompt :: "event list \<Rightarrow> string \<Rightarrow> bool"
  UpgradeOperatorRolePolicies :: "error option"
  GeneratePolicyFiles :: "error option"
  BuildOperatorRoleCommands :: "string list"
  JoinCommands :: "string list \<Rightarrow> string"
  GetOperatorRoleName :: "STSOperator \<Rightarrow> string"
  CheckRoleExists :: "event list \<Rightarrow> string \<Rightarrow> error + bool"
  BuildMissingOperatorRoleCommand :: "event list \<Rightarrow> error + string"
  GetOperatorPolicyARN :: "STSOperator \<Rightarrow> string"
  GenerateOperatorRolePolicyDoc :: "STSOperator \<Rightarrow> error + string"
  EnsureRole :: "event list \<Rightarrow> string \<Rightarrow> error + string"
  AttachRolePolicy :: "event list \<Rightarrow> string \<Rightarrow> string \<Rightarrow> error option"

text \<open>\<open>return r.Reporter.Errorf(...)\<close>: the message is reported and returned as the error.\<close>

definition reportError :: "string \<Rightarrow> error option prog" where
  "reportError msg = followedBy (emit (Errorf msg)) (ret (Some msg))"

definition confirm :: "world \<Rightarrow> string \<Rightarrow> bool prog" where
  "confirm w question =
     andThen (ask (\<lambda>h. confirmPrompt w h question))
       (\<lambda>answer. followedBy (emit (ConfirmPrompt question answer)) (ret answer))"

definition handleModeFlag ::
  "world \<Rightarrow> bool \<Rightarrow> string \<Rightarrow> error option \<Rightarrow> (string \<times> error option) prog" where
  "handleModeFlag w enabled mode err0 =
     andThen
      (if enabled then
         andThen
          (prompt ''Operator IAM role/policy upgrade mode'' (GetOption w)
             ''Expected a valid operator IAM role upgrade mode: '')
          (\<lambda>mode'. ret (mode', None))
       else ret (mode, err0))
      (\<lambda>(mode', err'). followedBy (emit (CallSetModeKey mode')) (ret (mode', err')))"

definition upgradeOperatorPolicies ::
  "world \<Rightarrow> string \<Rightarrow> string \<Rightarrow> bool \<Rightarrow> (string \<Rightarrow> string option) \<Rightarrow> string \<Rightarrow> string \<Rightarrow>
   (string \<times> STSOperator) list \<Rightarrow> Cluster \<Rightarrow> string \<Rightarrow> error option prog" where
  "upgradeOperatorPolicies w mode prefix' isAccountRoleUpgradeNeed policies env
       defaultPolicyVersion credRequests cluster policyPath =
    (if mode = ModeAuto then
       andThen
        (confirm w (''Upgrade the operator role policy to version '' @ defaultPolicyVersion @ ''?''))
        (\<lambda>yes.
          if \<not> yes then ret None
          else
            followedBy (emit (CallUpgradeOperatorRolePolicies defaultPolicyVersion))
             (case UpgradeOperatorRolePolicies w of
                Some e \<Rightarrow>
                  followedBy
                   (if Contains e ''Throttling''
                    then emit (CallLogEvent ''ROSAUpgradeOperatorRolesModeAuto'') else ret ())
                   (reportError (''Error upgrading the operator policies: '' @ e))
              | None \<Rightarrow> ret None))
     else if mode = ModeManual then
       followedBy (emit CallGeneratePolicyFiles)
        (case GeneratePolicyFiles w of
           Some e \<Rightarrow> fail (''There was an error generating the policy files: '' @ e)
         | None \<Rightarrow>
             followedBy
              (if IsTerminal w then
                 followedBy (emit (Infof ''All policy files saved to the current directory''))
                  (followedBy
                    (emit (Infof
                      ''Run the following commands to upgrade the operator IAM policies:''))
                    (if isAccountRoleUpgradeNeed then
                       emit (Warnf (''Operator role policies MUST only be upgraded after '' @
                                    ''Account Role policies upgrade has completed.''))
                     else ret ()))
               else ret ())
              (followedBy (emit CallBuildOperatorRoleCommands)
                (followedBy (emit (Println (JoinCommands w (BuildOperatorRoleCommands w))))
                  (ret None))))
     else reportError ''Invalid mode. Allowed values are [auto manual]'')"

primrec upgradeMissingOperatorRole ::
  "world \<Rightarrow> Cluster \<Rightarrow> string \<Rightarrow> string \<Rightarrow> (string \<Rightarrow> string option) \<Rightarrow> string \<Rightarrow>
   STSOperator list \<Rightarrow> error option prog" where
  "upgradeMissingOperatorRole w cluster accountID prefix' policies unifiedPath [] = ret None"
| "upgradeMissingOperatorRole w cluster accountID prefix' policies unifiedPath (operator # rest) =
    (let roleName = GetOperatorRoleName w operator in
     andThen (confirm w (''Create the '' @ roleName @ '' role?''))
      (\<lambda>yes.
        if \<not> yes then
          upgradeMissingOperatorRole w cluster accountID prefix' policies unifiedPath rest
        else
          (let policyDetails = (case policies ''operator_iam_role_policy'' of
                                  None \<Rightarrow> '''' | Some p \<Rightarrow> p);
               policyARN = GetOperatorPolicyARN w operator
           in
           case GenerateOperatorRolePolicyDoc w operator of
             Inl e \<Rightarrow> ret (Some e)
           | Inr policy \<Rightarrow>
               followedBy (emit (Debugf (''Creating role '' @ roleName)))
                (followedBy (emit (CallEnsureRole roleName))
                  (andThen (ask (\<lambda>h. EnsureRole w h roleName))
                    (\<lambda>ensured.
                      case ensured of
                        Inl e \<Rightarrow> ret (Some e)
                      | Inr roleARN \<Rightarrow>
                          followedBy
                           (emit (Infof (''Created role '' @ roleName @ '' with ARN '' @ roleARN)))
                           (followedBy
                             (emit (Debugf (''Attaching permission policy '' @ policyARN @
                                            '' to role '' @ roleName)))
                             (followedBy (emit (CallAttachRolePolicy roleName policyARN))
                               (andThen (ask (\<lambda>h. AttachRolePolicy w h roleName policyARN))
                                 (\<lambda>attached.
                                   case attached of
                                     Some e \<Rightarrow>
                                       ret (Some (''Failed to attach role policy. Check your prefix or run ''
                                                  @ ''rosa create account-roles to create the necessary policies: ''
                                                  @ e))
                                   | None \<Rightarrow>
                                       upgradeMissingOperatorRole w cluster accountID prefix'
                                         policies unifiedPath rest))))))))))"

definition createOperatorRole ::
  "world \<Rightarrow> string \<Rightarrow> Cluster \<Rightarrow> string \<Rightarrow> (string \<times> STSOperator) list \<Rightarrow>
   (string \<Rightarrow> string option) \<Rightarrow> string \<Rightarrow> error option prog" where
  "createOperatorRole w mode cluster prefix' missingRoles policies unifiedPath =
    (let accountID = CreatorAccountID w in
     if mode = ModeAuto then
       andThen
        (upgradeMissingOperatorRole w cluster accountID prefix' policies unifiedPath
           (map snd missingRoles))
        (\<lambda>err'. case err' of
                  Some e \<Rightarrow> ret (Some e)
                | None \<Rightarrow> followedBy (emit DisplaySpinnerWithDelay) (ret None))
     else if mode = ModeManual then
       followedBy (emit CallBuildMissingOperatorRoleCommand)
        (andThen (ask (BuildMissingOperatorRoleCommand w))
          (\<lambda>built.
            case built of
              Inl e \<Rightarrow> ret (Some e)
            | Inr commands \<Rightarrow>
                followedBy
                 (if IsTerminal w
                  then emit (Infof ''Run the following commands to create the operator roles:'')
                  else ret ())
                 (followedBy (emit (Println commands)) (ret None))))
     else fail ''Invalid mode. Allowed values are [auto manual]'')"

text \<open>
  The loop over the missing roles at the end of \<open>run\<close>. It gives the error that \<open>run\<close>
  returns from inside the loop, or the number of creations counted.
\<close>

primrec createMissingRoles ::
  "world \<Rightarrow> string \<Rightarrow> Cluster \<Rightarrow> string \<Rightarrow> (string \<times> STSOperator) list \<Rightarrow>
   (string \<Rightarrow> string option) \<Rightarrow> string \<Rightarrow> STSOperator list \<Rightarrow> nat \<Rightarrow> (error + nat) prog" where
  "createMissingRoles w mode cluster prefix' missingRolesInCS policies unifiedPath []
       createdMissingRoles = ret (Inr createdMissingRoles)"
| "createMissingRoles w mode cluster prefix' missingRolesInCS policies unifiedPath (operator # rest)
       createdMissingRoles =
    (let roleName = GetOperatorRoleName w operator in
     andThen (ask (\<lambda>h. CheckRoleExists w h roleName))
      (\<lambda>checked.
        case checked of
          Inl e \<Rightarrow>
            followedBy (emit (RemoteRead ''CheckRoleExists''))
             (andThen
               (reportError (''Error when detecting checking missing operator IAM roles '' @ e))
               (\<lambda>err'. ret (Inl (case err' of Some m \<Rightarrow> m | None \<Rightarrow> ''''))))
        | Inr exists \<Rightarrow>
            followedBy (emit (CallCheckRoleExists roleName exists))
             (if \<not> exists then
                andThen
                 (createOperatorRole w mode cluster prefix' missingRolesInCS policies unifiedPath)
                 (\<lambda>err'.
                   case err' of
                     Some e \<Rightarrow> fail e
                   | None \<Rightarrow>
                       createMissingRoles w mode cluster prefix' missingRolesInCS policies
                         unifiedPath rest (createdMissingRoles + 1))
              else
                createMissingRoles w mode cluster prefix' missingRolesInCS policies unifiedPath
                  rest createdMissingRoles)))"

text \<open>\<open>run\<close>, from the choice of the mode to the end.\<close>

definition run_apply ::
  "world \<Rightarrow> string \<Rightarrow> Cluster \<Rightarrow> string \<Rightarrow> string \<Rightarrow> string \<Rightarrow> bool \<Rightarrow>
   (string \<times> STSOperator) list \<Rightarrow> bool \<Rightarrow> (string \<times> STSOperator) list \<Rightarrow> error option prog" where
  "run_apply w mode cluster prefix' defaultPolicyVersion unifiedPath isAccountRoleUpgradeNeed
       credRequests isOperatorPolicyUpgradeNeeded missingRolesInCS =
    (let enabled = (interactiveEnabled w \<or> \<not> modeFlagChanged w) in
     followedBy (emit (RemoteRead ''GetPolicies''))
      (case GetPolicies w of
         Inl e \<Rightarrow> fail (''Expected a valid role creation mode: '' @ e)
       | Inr policies \<Rightarrow>
          (case GetEnv w of
             Inl e \<Rightarrow> fail (''Failed to determine OCM environment: '' @ e)
           | Inr env \<Rightarrow>
               andThen (handleModeFlag w enabled mode None)
                (\<lambda>(mode', err').
                  case err' of
                    Some e \<Rightarrow> fail e
                  | None \<Rightarrow>
                      followedBy
                       (if isOperatorPolicyUpgradeNeeded then
                          andThen
                           (upgradeOperatorPolicies w mode' prefix' isAccountRoleUpgradeNeed
                              policies env defaultPolicyVersion credRequests cluster unifiedPath)
                           (\<lambda>err''. case err'' of Some e \<Rightarrow> fail e | None \<Rightarrow> ret ())
                        else ret ())
                       (if length missingRolesInCS > 0 then
                          andThen
                           (createMissingRoles w mode' cluster prefix' missingRolesInCS policies
                              unifiedPath (map snd missingRolesInCS) 0)
                           (\<lambda>looped.
                             case looped of
                               Inl e \<Rightarrow> ret (Some e)
                             | Inr createdMissingRoles \<Rightarrow>
                                 followedBy
                                  (if createdMissingRoles = 0 then
                                     emit (Infof (''Missing roles/policies have already been created. ''
                                                  @ ''Please continue with cluster upgrade process.''))
                                   else ret ())
                                  (ret None))
                        else ret None)))))"

text \<open>\<open>run\<close>, from the credential requests to the decision whether anything is to be done.\<close>

definition run_reconcile ::
  "world \<Rightarrow> string \<Rightarrow> Cluster \<Rightarrow> string \<Rightarrow> string \<Rightarrow> string \<Rightarrow> bool \<Rightarrow> error option prog" where
  "run_reconcile w mode cluster prefix' defaultPolicyVersion unifiedPath isAccountRoleUpgradeNeed =
    followedBy (emit (RemoteRead ''GetCredRequests''))
     (case GetCredRequests w of
        Inl e \<Rightarrow> fail (''Error getting operator credential request from OCM '' @ e)
      | Inr credRequests \<Rightarrow>
         followedBy (emit (RemoteRead ''IsUpgradedNeededForOperatorRolePoliciesUsingPrefix''))
          (case IsUpgradedNeededForOperatorRolePoliciesUsingPrefix w of
             Inl e \<Rightarrow> fail e
           | Inr isOperatorPolicyUpgradeNeeded \<Rightarrow>
              (let version = (if upgradeVersion w = '''' then versionRawID cluster
                              else upgradeVersion w)
               in
               followedBy (emit (RemoteRead ''FindMissingOperatorRolesForUpgrade''))
                (case FindMissingOperatorRolesForUpgrade w version of
                   Inl e \<Rightarrow> ret (Some e)
                 | Inr missingRolesInCS \<Rightarrow>
                     if length missingRolesInCS \<le> 0 \<and> \<not> isOperatorPolicyUpgradeNeeded then
                       followedBy
                        (emit (Infof (''Operator roles associated with the cluster '' @
                                      clusterID cluster @ '' are already up-to-date.'')))
                        (ret None)
                     else
                       followedBy
                        (if length missingRolesInCS > 0 \<or> isOperatorPolicyUpgradeNeeded then
                           emit (Infof ''Starting to upgrade the operator IAM roles and policies'')
                         else ret ())
                        (run_apply w mode cluster prefix' defaultPolicyVersion unifiedPath
                           isAccountRoleUpgradeNeed credRequests isOperatorPolicyUpgradeNeeded
                           missingRolesInCS)))))"

text \<open>
  The message that tells how to bring the account roles up to date, from the format
  \<open>"Account roles with prefix '%s' need to be upgraded before operator roles. Roles can be
  upgraded with the following command :\n\n\trosa upgrade account-roles --prefix %s\n"\<close>:
  \<open>CHR 0x27\<close> is the single quote, \<open>CHR 0x0A\<close> the newline and \<open>CHR 0x09\<close> the tab.
\<close>

definition accountRolesRemediation :: "string \<Rightarrow> string" where
  "accountRolesRemediation prefix' =
     ''Account roles with prefix '' @ [CHR 0x27] @ prefix' @ [CHR 0x27] @
     '' need to be upgraded before operator roles. '' @
     ''Roles can be upgraded with the following command :'' @
     [CHR 0x0A, CHR 0x0A, CHR 0x09] @
     ''rosa upgrade account-roles --prefix '' @ prefix' @ [CHR 0x0A]"

definition run :: "world \<Rightarrow> error option prog" where
  "run w =
    (case GetMode w of
       Inl e \<Rightarrow> fail e
     | Inr mode \<Rightarrow>
        (let clusterKey = GetClusterKey w in
         followedBy (emit (RemoteRead ''GetDefaultVersion''))
          (case GetDefaultVersion w of
             Inl e \<Rightarrow> fail (''Error getting latest default version: '' @ e)
           | Inr defaultPolicyVersion \<Rightarrow>
              followedBy (emit (RemoteRead ''FetchCluster''))
               (let cluster = FetchCluster w in
                followedBy
                 (if upgradeVersion w \<noteq> '''' then
                    followedBy (emit (RemoteRead ''GetAvailableUpgrades''))
                     (case GetAvailableUpgrades w of
                        Inl e \<Rightarrow> fail (''Failed to find available upgrades: '' @ e)
                      | Inr availableUpgrades \<Rightarrow>
                          if length availableUpgrades = 0 then
                            followedBy (emit (Warnf ''There are no available upgrades'')) (osExit 0)
                          else if upgradeVersion w \<notin> set availableUpgrades then
                            fail ''Expected a valid version to upgrade the cluster''
                          else ret ())
                  else ret ())
                 (followedBy
                   (if (case operatorIAMRoles cluster of None \<Rightarrow> True | Some rs \<Rightarrow> length rs = 0)
                    then emit (Errorf (''Cluster '' @ clusterKey @
                                       '' doesnt have any operator roles associated with it''))
                    else ret ())
                   (case GetPrefixFromInstallerAccountRole w of
                      (prefix', prefixErr) \<Rightarrow>
                       followedBy
                        (if prefixErr \<noteq> None
                         then emit (Errorf (''Error getting account role prefix for the cluster ''
                                            @ clusterKey))
                         else ret ())
                        (case GetPathFromAccountRole w of
                           Inl e \<Rightarrow>
                             fail (''Expected a valid path for '' @ stsRoleARN cluster @ '': '' @ e)
                         | Inr unifiedPath \<Rightarrow>
                            followedBy
                             (emit (RemoteRead ''IsUpgradedNeededForAccountRolePolicies''))
                             (case IsUpgradedNeededForAccountRolePolicies w of
                                Inl e \<Rightarrow> fail e
                              | Inr isAccountRoleUpgradeNeed \<Rightarrow>
                                  if isAccountRoleUpgradeNeed then
                                    followedBy (emit (Infof (accountRolesRemediation prefix')))
                                     (osExit 1)
                                  else
                                    run_reconcile w mode cluster prefix' defaultPolicyVersion
                                      unifiedPath isAccountRoleUpgradeNeed))))))))"

text \<open>What the properties of the upgrade speak about: the calls that change something remotely,
  the events of the manual branches, and the mode in force after the mode question.\<close>

definition remoteMutation :: "event \<Rightarrow> bool" where
  "remoteMutation e =
     (case e of
        CallUpgradeOperatorRolePolicies v \<Rightarrow> True
      | CallLogEvent n \<Rightarrow> True
      | CallEnsureRole n \<Rightarrow> True
      | CallAttachRolePolicy n p \<Rightarrow> True
      | CallCreateNodePool np \<Rightarrow> True
      | CallUpdateNodePool np \<Rightarrow> True
      | _ \<Rightarrow> False)"

definition localOnly :: "event \<Rightarrow> bool" where
  "localOnly e =
     (case e of
        CallGeneratePolicyFiles \<Rightarrow> True
      | CallBuildOperatorRoleCommands \<Rightarrow> True
      | CallBuildMissingOperatorRoleCommand \<Rightarrow> True
      | Println s \<Rightarrow> True
      | Errorf s \<Rightarrow> True
      | Warnf s \<Rightarrow> True
      | Infof s \<Rightarrow> True
      | _ \<Rightarrow> False)"

definition adds :: "(event \<Rightarrow> bool) \<Rightarrow> 'a prog \<Rightarrow> bool" where
  "adds Q m = (\<forall>h. \<exists>t. snd (m h) = h @ t \<and> list_all Q t)"

definition selectedMode :: "world \<Rightarrow> error + string" where
  "selectedMode w =
     (if interactiveEnabled w \<or> \<not> modeFlagChanged w then GetOption w else GetMode w)"

abbreviation (input) harmless :: "event \<Rightarrow> bool" where
  "harmless \<equiv> (\<lambda>e. \<not> remoteMutation e)"

text \<open>Concrete operators, cluster and worlds, for evaluating the upgrade on examples.\<close>

definition opA :: STSOperator where
  "opA = \<lparr>opName = ''a'', opNamespace = ''ns'', opMinVersion = ''4.12''\<rparr>"

definition opB :: STSOperator where
  "opB = \<lparr>opName = ''b'', opNamespace = ''ns'', opMinVersion = ''4.12''\<rparr>"

definition cluster0 :: Cluster where
  "cluster0 = \<lparr>clusterID = ''c1'', versionRawID = ''4.12.0'', hypershiftEnabled = False,
                operatorIAMRoles = Some [\<lparr>roleName = ''x'', roleNamespace = ''ns''\<rparr>],
                stsRoleARN = ''arn:installer''\<rparr>"

definition isConfirmPrompt :: "event \<Rightarrow> bool" where
  "isConfirmPrompt e = (case e of ConfirmPrompt q a \<Rightarrow> True | _ \<Rightarrow> False)"

text \<open>
  A world in which every call succeeds: automatic mode given by the flag, two operators
  without a role, a role exists once it has been ensured, and the terminal declines the
  second question asked and accepts every other one.
\<close>

definition world0 :: world where
  "world0 =
    \<lparr>GetMode = Inr ModeAuto, GetClusterKey = ''c1'', GetDefaultVersion = Inr ''4.12'',
     FetchCluster = cluster0, upgradeVersion = '''', GetAvailableUpgrades = Inr [],
     GetPrefixFromInstallerAccountRole = (''pre'', None), GetPathFromAccountRole = Inr ''/'',
     IsUpgradedNeededForAccountRolePolicies = Inr False,
     GetCredRequests = Inr [(''ka'', opA), (''kb'', opB)],
     IsUpgradedNeededForOperatorRolePoliciesUsingPrefix = Inr False,
     FindMissingOperatorRolesForUpgrade = (\<lambda>v. Inr [(''ka'', opA), (''kb'', opB)]),
     interactiveEnabled = False, modeFlagChanged = True,
     GetPolicies = Inr (\<lambda>k. None), GetEnv = Inr ''production'', GetOption = Inr ModeAuto,
     CreatorAccountID = ''123'', IsTerminal = False,
     confirmPrompt = (\<lambda>h q. length (filter isConfirmPrompt h) \<noteq> 1),
     UpgradeOperatorRolePolicies = None, GeneratePolicyFiles = None,
     BuildOperatorRoleCommands = [''cmd1'', ''cmd2''], JoinCommands = concat,
     GetOperatorRoleName = opName,
     CheckRoleExists = (\<lambda>h n. Inr (CallEnsureRole n \<in> set h)),
     BuildMissingOperatorRoleCommand = (\<lambda>h. Inr ''create-role''),
     GetOperatorPolicyARN = (\<lambda>operator. ''arn:'' @ opName operator),
     GenerateOperatorRolePolicyDoc = (\<lambda>operator. Inr ''doc''),
     EnsureRole = (\<lambda>h n. Inr (''arn:role/'' @ n)),
     AttachRolePolicy = (\<lambda>h n p. None)\<rparr>"


definition world_noroles :: world where
  "world_noroles = world0\<lparr>FetchCluster := cluster0\<lparr>operatorIAMRoles := None\<rparr>,
       FindMissingOperatorRolesForUpgrade := (\<lambda>v. Inr [])\<rparr>"

definition ensuredRoles :: "event list \<Rightarrow> string list" where
  "ensuredRoles h = concat (map (\<lambda>e. case e of CallEnsureRole n \<Rightarrow> [n] | _ \<Rightarrow> []) h)"

definition world_manual :: world where
  "world_manual = world0\<lparr>GetMode := Inr ModeManual,
       IsUpgradedNeededForOperatorRolePoliciesUsingPrefix := Inr True\<rparr>"

text \<open>
  Modelled from the spec: FindMissingOperatorRolesForUpgrade, the function of the cluster
  service client that finds the missing roles, is not part of the sources. The spec:
  "determine roles missing relative to the cluster's credential requests" and "Missing-role
  detection must return exactly the set difference between required and existing operator
  roles". The required operators are the ones the credential requests ask for at the target
  version; the existing ones are the operator roles the cluster has, matched by namespace
  and name.
\<close>

definition hasOperatorRole :: "Cluster \<Rightarrow> STSOperator \<Rightarrow> bool" where
  "hasOperatorRole cluster operator =
     ((opNamespace operator, opName operator) \<in>
        set (map (\<lambda>r. (roleNamespace r, roleName r))
               (case operatorIAMRoles cluster of None \<Rightarrow> [] | Some rs \<Rightarrow> rs)))"

definition FindMissingOperatorRolesForUpgrade_spec ::
  "Cluster \<Rightarrow> (string \<times> STSOperator) list \<Rightarrow> (string \<times> STSOperator) list" where
  "FindMissingOperatorRolesForUpgrade_spec cluster required =
     filter (\<lambda>(key, operator). \<not> hasOperatorRole cluster operator) required"

text \<open>The roles a run found not to exist, read off its events.\<close>

definition foundMissing :: "event list \<Rightarrow> string list" where
  "foundMissing h =
     concat (map (\<lambda>e. case e of CallCheckRoleExists n exists \<Rightarrow> (if exists then [] else [n])
                       | _ \<Rightarrow> []) h)"


definition opX :: STSOperator where
  "opX = \<lparr>opName = ''x'', opNamespace = ''ns'', opMinVersion = ''4.12''\<rparr>"

definition required0 :: "(string \<times> STSOperator) list" where
  "required0 = [(''ka'', opA), (''kb'', opB), (''kx'', opX)]"

definition world_detect :: world where
  "world_detect = world_manual\<lparr>CheckRoleExists := (\<lambda>h n. Inr (n \<in> set [''b'']))\<rparr>"




section \<open>Properties of the response accessors\<close>

lemma MachineTypeGetResponse_nil:
  "MachineTypeGetResponse_Status None = 0"
  "MachineTypeGetResponse_Header None = None"
  "MachineTypeGetResponse_Error None = None"
  "MachineTypeGetResponse_Body None = None"
  "MachineTypeGetResponse_GetBody None = (None, False)"
  by (simp_all add: MachineTypeGetResponse_Status_def MachineTypeGetResponse_Header_def
      MachineTypeGetResponse_Error_def MachineTypeGetResponse_Body_def
      MachineTypeGetResponse_GetBody_def)

lemma MachineTypeGetResponse_GetBody_ok:
  "MachineTypeGetResponse_GetBody r =
     (case r of None \<Rightarrow> (None, False)
      | Some g \<Rightarrow> (case body g of None \<Rightarrow> (None, False) | Some b \<Rightarrow> (Some b, True)))"
  by (simp add: MachineTypeGetResponse_GetBody_def split: option.splits)

lemma MachineTypePollResponse_nil_guarded:
  "MachineTypePollResponse_Status None = Inr 0"
  "MachineTypePollResponse_Header None = Inr None"
  "MachineTypePollResponse_Error None = Inr None"
  by (simp_all add: MachineTypePollResponse_Status_def MachineTypePollResponse_Header_def
      MachineTypePollResponse_Error_def)

text \<open>
  C9. The claim: every accessor on a nil get response or nil poll response is total and never
  dereferences nil, and \<open>GetBody\<close> gives \<open>ok = false\<close> on a nil receiver. On the get
  response this holds (the lemmas above). On a nil poll response \<open>GetBody\<close> (and
  \<open>Body\<close>) reads \<open>r.response\<close> without the nil guard its siblings have and panics.
\<close>

theorem MachineTypePollResponse_GetBody_nil_panics:
  "MachineTypePollResponse_GetBody None = Inl NilPointerDereference
   \<and> MachineTypePollResponse_Body None = Inl NilPointerDereference"
  by (simp add: MachineTypePollResponse_GetBody_def MachineTypePollResponse_Body_def)

section \<open>Properties of ParseKnownFlags\<close>

lemma Contains_eq: "Contains s ''='' \<longleftrightarrow> CHR ''='' \<in> set s"
  by (induction s) (auto simp: HasPrefix_def)

lemma SplitN2_head_drop: "\<not> Contains s ''='' \<Longrightarrow> SplitN2_head (drop k s) = drop k s"
  unfolding Contains_eq SplitN2_head_def takeWhile_eq_all_conv
  by (auto dest: in_set_dropD)

lemma HasPrefix2_1: "HasPrefix arg ''--'' \<Longrightarrow> HasPrefix arg ''-''"
  by (cases arg) (auto simp: HasPrefix_def)

lemma scanArg_unknown:
  "unknownFlags (scanArg Quote flags True s arg) =
     unknownFlags s @ concat (map (\<lambda>n. Quote n @ '', '') (unknownNames flags [arg]))"
proof (cases "HasPrefix arg ''--''")
  case True
  then show ?thesis
    by (cases "Contains arg ''=''")
      (simp_all add: scanArg_def unknownNames_def flagNameOf_def Let_def SplitN2_head_drop
        HasPrefix2_1 split: option.splits)
next
  case False
  then show ?thesis
    by (cases "HasPrefix arg ''-''"; cases "Contains arg ''=''")
      (simp_all add: scanArg_def unknownNames_def flagNameOf_def Let_def SplitN2_head_drop
        split: option.splits)
qed

lemma unknownNames_Cons:
  "unknownNames flags (a # argv) = unknownNames flags [a] @ unknownNames flags argv"
  by (simp add: unknownNames_def)

lemma scanArgs_unknown:
  "unknownFlags (scanArgs Quote flags True argv s) =
     unknownFlags s @ concat (map (\<lambda>n. Quote n @ '', '') (unknownNames flags argv))"
proof (induction argv arbitrary: s)
  case Nil
  then show ?case by (simp add: unknownNames_def)
next
  case (Cons a argv)
  show ?case
    by (simp add: Cons.IH scanArg_unknown unknownNames_Cons[of flags a argv])
qed

lemma concat_join:
  "ns \<noteq> [] \<Longrightarrow> concat (map (\<lambda>n. Q n @ '', '') ns) = joinNames (map Q ns) @ '', ''"
  by (induction ns rule: induct_list012) auto

lemma sublist_join: "n \<in> set ns \<Longrightarrow> sublist n (joinNames ns)"
proof (induction ns rule: joinNames.induct)
  case (3 n' m ns)
  show ?case
  proof (cases "n = n'")
    case True
    then show ?thesis by simp
  next
    case False
    with 3 have "sublist n (joinNames (m # ns))" by simp
    then obtain ps ss where "joinNames (m # ns) = ps @ n @ ss"
      by (auto simp: sublist_def)
    then have "joinNames (n' # m # ns) = (n' @ '', '' @ ps) @ n @ ss" by simp
    then show ?thesis unfolding sublist_def by blast
  qed
qed auto

lemma unknownNames_example:
  "unknownNames flags0 [''--cluster'', ''c1'', ''--foo=1'', ''-x''] = [''foo'', ''x'']"
  by (simp add: unknownNames_def flagNameOf_def flags0_def HasPrefix_def SplitN2_head_def)

text \<open>
  C10. With \<open>failOnUnknown\<close> set and at least one unknown long or short flag among the
  arguments, ParseKnownFlags returns the error "Unknown flags passed: " followed by the
  quoted names of all the unknown flags in order, joined by ", "; every unknown name occurs
  quoted in that message; the flag set is returned as it was, whatever \<open>flags.Parse\<close>
  would have done to it, and nothing is printed.
\<close>

theorem ParseKnownFlags_unknown:
  assumes "unknownNames flags argv \<noteq> []"
  shows "ParseKnownFlags Quote Parse GetBool flags argv True =
           (Some (''Unknown flags passed: '' @ joinNames (map Quote (unknownNames flags argv))),
            flags, [])
         \<and> (\<forall>n \<in> set (unknownNames flags argv).
               sublist (Quote n) (joinNames (map Quote (unknownNames flags argv))))"
  using assms
  by (simp add: ParseKnownFlags_def Let_def scanArgs_unknown concat_join sublist_join)

theorem ParseKnownFlags_unknown_witness:
  "unknownNames flags0 [''--cluster'', ''c1'', ''--foo=1'', ''-x''] \<noteq> [] \<and>
   ParseKnownFlags Quote0 (\<lambda>f a. Inr Map.empty) (\<lambda>f n. Inr True) flags0
       [''--cluster'', ''c1'', ''--foo=1'', ''-x''] True =
     (Some (''Unknown flags passed: '' @ Quote0 ''foo'' @ '', '' @ Quote0 ''x''), flags0, [])"
  using ParseKnownFlags_unknown [of flags0 "[''--cluster'', ''c1'', ''--foo=1'', ''-x'']"
      Quote0 "\<lambda>f a. Inr Map.empty" "\<lambda>f n. Inr True"]
  by (simp add: unknownNames_example)

section \<open>Properties of the node pool commands\<close>

lemmas prog_defs = andThen_def followedBy_def ret_def osExit_def emit_def fail_def prompt_def ask_def

lemma addNodePool_rejects_replicas_with_autoscaling:
  assumes "Changed c ''replicas''" "autoscalingEnabled (flagArgs c)"
  shows "\<exists>msg. addNodePool c i client key cid h = (Exit 1, h @ [Errorf msg])"
  using assms by (simp add: addNodePool_def prog_defs Let_def)

text \<open>
  C2. The claim: with the replicas flag set and autoscaling enabled the command is rejected
  with exit code 1 before any build or create call, on create and likewise on edit. On
  create this holds (the lemma above). On edit nothing checks the combination: with
  \<open>--replicas=3 --enable-autoscaling --min-replicas=1 --max-replicas=5\<close> the update request
  is built and sent and the command returns normally.
\<close>

theorem editNodePool_replicas_with_autoscaling_accepted:
  "editNodePool cmd_replicas_autoscaling i0 ocm0 ''np'' ''c'' [] =
     (Return (),
      [Debugf ''Loading machine pool for hosted cluster c'',
       RemoteRead ''GetNodePool'',
       Debugf ''Updating machine pool np on hosted cluster c'',
       CallUpdateNodePool
         \<lparr>npID = Some ''np'',
          npAutoscaling = Some \<lparr>MinReplica = Some 1, MaxReplica = Some 5\<rparr>,
          npReplicas = None\<rparr>,
       Infof ''Updated machine pool np on hosted cluster c''])"
  by (simp add: editNodePool_def getNodePoolReplicas_def prog_defs Let_def Changed_def
      cmd_replicas_autoscaling_def i0_def ocm0_def np0_def getReplicas_def getID_def
      NewNodePool_def NewNodePoolAutoscaling_def)










section \<open>Properties of the operator roles upgrade\<close>

lemma adds_ret [intro!, simp]: "adds Q (ret a)"
  by (simp add: adds_def ret_def)

lemma adds_osExit [intro!, simp]: "adds Q (osExit c)"
  by (simp add: adds_def osExit_def)

lemma adds_ask [intro!, simp]: "adds Q (ask f)"
  by (simp add: adds_def ask_def)

lemma adds_emit [intro]: "Q e \<Longrightarrow> adds Q (emit e)"
  by (simp add: adds_def emit_def)

lemma adds_andThen [intro]:
  assumes "adds Q m" and "\<And>a h h'. m h = (Return a, h') \<Longrightarrow> adds Q (f a)"
  shows "adds Q (andThen m f)"
  unfolding adds_def
proof
  fix h
  from assms(1) obtain t where t: "snd (m h) = h @ t" "list_all Q t"
    by (auto simp: adds_def)
  show "\<exists>t. snd (andThen m f h) = h @ t \<and> list_all Q t"
  proof (cases "m h")
    case (Pair r h')
    with t have h': "h' = h @ t" by simp
    show ?thesis
    proof (cases r)
      case (Exit c)
      with Pair h' t show ?thesis by (auto simp: andThen_def)
    next
      case (Return a)
      with assms(2) Pair have "adds Q (f a)" by blast
      then obtain t' where "snd (f a h') = h' @ t'" "list_all Q t'"
        by (auto simp: adds_def)
      with Return Pair h' t show ?thesis
        by (auto simp: andThen_def intro!: exI[of _ "t @ t'"])
    qed
  qed
qed

lemma adds_followedBy [intro]: "adds Q m \<Longrightarrow> adds Q k \<Longrightarrow> adds Q (followedBy m k)"
  unfolding followedBy_def by (rule adds_andThen)

lemma adds_fail [intro]: "Q (Errorf msg) \<Longrightarrow> adds Q (fail msg)"
  unfolding fail_def by (intro adds_followedBy adds_emit adds_osExit)

lemma adds_prompt [intro]:
  "Q (Ask question) \<Longrightarrow> (\<And>m. Q (Errorf m)) \<Longrightarrow> adds Q (prompt question answer complaint)"
  unfolding prompt_def by (cases answer) (auto intro!: adds_followedBy adds_emit adds_fail)

lemma adds_mono: "adds Q m \<Longrightarrow> (\<And>e. Q e \<Longrightarrow> R e) \<Longrightarrow> adds R m"
  unfolding adds_def list_all_iff by blast

lemma adds_filter:
  "adds (\<lambda>e. \<not> P e) m \<Longrightarrow> filter P (snd (m h)) = filter P h"
proof -
  assume "adds (\<lambda>e. \<not> P e) m"
  then obtain t where "snd (m h) = h @ t" "list_all (\<lambda>e. \<not> P e) t"
    by (auto simp: adds_def)
  then show ?thesis by (simp add: list_all_iff)
qed

lemma harmless_simps [simp]:
  "\<not> remoteMutation (Errorf s)" "\<not> remoteMutation (Warnf s)" "\<not> remoteMutation (Infof s)"
  "\<not> remoteMutation (Debugf s)" "\<not> remoteMutation (Println s)" "\<not> remoteMutation (Ask s)"
  "\<not> remoteMutation (ConfirmPrompt s b)" "\<not> remoteMutation (RemoteRead s)"
  "\<not> remoteMutation (CallCheckRoleExists s b)" "\<not> remoteMutation CallGeneratePolicyFiles"
  "\<not> remoteMutation CallBuildOperatorRoleCommands"
  "\<not> remoteMutation CallBuildMissingOperatorRoleCommand"
  "\<not> remoteMutation (CallSetModeKey s)" "\<not> remoteMutation DisplaySpinnerWithDelay"
  by (simp_all add: remoteMutation_def)

lemma localOnly_simps [simp]:
  "localOnly (Errorf s)" "localOnly (Warnf s)" "localOnly (Infof s)" "localOnly (Println s)"
  "localOnly CallGeneratePolicyFiles" "localOnly CallBuildOperatorRoleCommands"
  "localOnly CallBuildMissingOperatorRoleCommand"
  by (simp_all add: localOnly_def)

lemma localOnly_harmless: "localOnly e \<Longrightarrow> \<not> remoteMutation e"
  by (cases e) (simp_all add: localOnly_def remoteMutation_def)

lemma adds_reportError [intro]: "Q (Errorf msg) \<Longrightarrow> adds Q (reportError msg)"
  unfolding reportError_def by (intro adds_followedBy adds_emit adds_ret)

lemma adds_confirm: "(\<And>a. Q (ConfirmPrompt question a)) \<Longrightarrow> adds Q (confirm w question)"
  unfolding confirm_def by (intro adds_andThen adds_followedBy adds_emit adds_ret adds_ask)

lemma manual_upgradeOperatorPolicies:
  "adds localOnly (upgradeOperatorPolicies w ModeManual prefix' b policies env v creds cluster path)"
  unfolding upgradeOperatorPolicies_def
  by (cases "GeneratePolicyFiles w")
    (auto simp: ModeAuto_def ModeManual_def intro!: adds_followedBy adds_emit adds_fail)

lemma manual_createOperatorRole:
  "adds localOnly (createOperatorRole w ModeManual cluster prefix' missing policies path)"
  unfolding createOperatorRole_def Let_def
  by (auto simp: ModeAuto_def ModeManual_def split: sum.splits
      intro!: adds_followedBy adds_emit adds_andThen)

lemma manual_createMissingRoles:
  "adds harmless
     (createMissingRoles w ModeManual cluster prefix' missing policies path ops n)"
proof (induction ops arbitrary: n)
  case Nil
  show ?case by simp
next
  case (Cons operator rest)
  have c: "adds harmless (createOperatorRole w ModeManual cluster prefix' missing policies path)"
    by (rule adds_mono[OF manual_createOperatorRole]) (rule localOnly_harmless)
  show ?case
    by (auto simp: Let_def split: sum.splits option.splits
        intro!: adds_andThen adds_followedBy adds_emit adds_reportError adds_fail c Cons.IH)
qed

lemma adds_handleModeFlag: "adds harmless (handleModeFlag w enabled mode err0)"
  unfolding handleModeFlag_def
  by (auto intro!: adds_andThen adds_followedBy adds_emit adds_prompt)

lemma handleModeFlag_result:
  assumes "handleModeFlag w enabled mode err0 h = (Return (mode', err'), h')"
  shows "(if enabled then GetOption w else Inr mode) = Inr mode'"
  using assms
  by (cases "GetOption w")
    (auto simp: handleModeFlag_def andThen_def followedBy_def prompt_def emit_def ret_def
      fail_def osExit_def split: if_splits)

lemma manual_run_apply:
  assumes "(if interactiveEnabled w \<or> \<not> modeFlagChanged w then GetOption w else Inr mode)
           = Inr ModeManual"
  shows "adds harmless
           (run_apply w mode cluster prefix' v path b creds needed missing)"
proof -
  have u: "adds harmless (upgradeOperatorPolicies w ModeManual prefix' b policies env v creds cluster path)"
    for policies env
    by (rule adds_mono[OF manual_upgradeOperatorPolicies]) (rule localOnly_harmless)
  have m: "mode' = ModeManual"
    if "handleModeFlag w (interactiveEnabled w \<or> \<not> modeFlagChanged w) mode None h
        = (Return (mode', err'), h')" for mode' err' h h'
    using handleModeFlag_result[OF that] assms by simp
  show ?thesis
    unfolding run_apply_def Let_def
    by (auto split: sum.splits option.splits dest!: m
        intro!: adds_andThen adds_followedBy adds_emit adds_fail adds_handleModeFlag u
          manual_createMissingRoles)
qed

lemma adds_case_sum:
  "(\<And>e. x = Inl e \<Longrightarrow> adds Q (f e)) \<Longrightarrow> (\<And>v. x = Inr v \<Longrightarrow> adds Q (g v)) \<Longrightarrow>
   adds Q (case x of Inl e \<Rightarrow> f e | Inr v \<Rightarrow> g v)"
  by (cases x) simp_all

lemma adds_case_option:
  "(x = None \<Longrightarrow> adds Q f) \<Longrightarrow> (\<And>v. x = Some v \<Longrightarrow> adds Q (g v)) \<Longrightarrow>
   adds Q (case x of None \<Rightarrow> f | Some v \<Rightarrow> g v)"
  by (cases x) simp_all

lemma adds_case_prod:
  "(\<And>a b. x = (a, b) \<Longrightarrow> adds Q (f a b)) \<Longrightarrow> adds Q (case x of (a, b) \<Rightarrow> f a b)"
  by (cases x) simp_all

lemma adds_if:
  "(c \<Longrightarrow> adds Q a) \<Longrightarrow> (\<not> c \<Longrightarrow> adds Q b) \<Longrightarrow> adds Q (if c then a else b)"
  by simp

lemmas adds_intros = adds_followedBy adds_case_sum adds_case_option adds_case_prod adds_if
  adds_emit adds_fail adds_ret adds_osExit adds_reportError

lemma manual_run_reconcile:
  assumes "(if interactiveEnabled w \<or> \<not> modeFlagChanged w then GetOption w else Inr mode)
           = Inr ModeManual"
  shows "adds harmless (run_reconcile w mode cluster prefix' v path b)"
  unfolding run_reconcile_def Let_def
  by (intro adds_intros manual_run_apply[OF assms]) simp_all

lemma adds_run_prelude:
  assumes "\<And>mode cluster prefix' v path b. GetMode w = Inr mode \<Longrightarrow>
             adds harmless (run_reconcile w mode cluster prefix' v path b)"
  shows "adds harmless (run w)"
  unfolding run_def Let_def
  by (intro adds_intros assms) simp_all

lemma manual_run:
  assumes "selectedMode w = Inr ModeManual"
  shows "adds harmless (run w)"
proof (rule adds_run_prelude)
  fix mode cluster prefix' v path b
  assume "GetMode w = Inr mode"
  with assms have "(if interactiveEnabled w \<or> \<not> modeFlagChanged w then GetOption w else Inr mode)
           = Inr ModeManual"
    by (auto simp: selectedMode_def split: if_splits)
  then show "adds harmless (run_reconcile w mode cluster prefix' v path b)"
    by (rule manual_run_reconcile)
qed

text \<open>
  C1. When the mode in force is manual, a run of the upgrade adds no event that changes
  anything remotely (no policy upgrade, no role creation, no policy attachment, no logged
  event), and the manual branches of upgradeOperatorPolicies and createOperatorRole add only
  the generation of the policy files, the building of the commands, messages and printed
  lines.
\<close>

theorem manual_mode_no_remote_mutation:
  assumes "selectedMode w = Inr ModeManual"
  shows "(\<exists>t. snd (run w h) = h @ t \<and> list_all (\<lambda>e. \<not> remoteMutation e) t) \<and>
         (\<exists>t. snd (upgradeOperatorPolicies w ModeManual prefix' b policies env v creds cluster path h)
              = h @ t \<and> list_all localOnly t) \<and>
         (\<exists>t. snd (createOperatorRole w ModeManual cluster prefix' missing policies path h)
              = h @ t \<and> list_all localOnly t)"
  using manual_run[OF assms] manual_upgradeOperatorPolicies manual_createOperatorRole
  unfolding adds_def by blast

theorem manual_mode_no_remote_mutation_witness:
  "selectedMode world_manual = Inr ModeManual \<and>
   (\<exists>t. snd (run world_manual []) = [] @ t \<and> list_all (\<lambda>e. \<not> remoteMutation e) t)"
  using manual_mode_no_remote_mutation [where w = world_manual and h = "[]"]
  by (simp add: selectedMode_def world_manual_def world0_def)

text \<open>
  C6. The claim: every error reported during the upgrade makes the command exit with code 1
  rather than continue. For a cluster without operator roles the error is reported, no exit
  follows, and the run goes on to its normal end and returns no error.
\<close>

theorem run_continues_without_operator_roles:
  "run world_noroles [] =
     (Return None,
      [RemoteRead ''GetDefaultVersion'', RemoteRead ''FetchCluster'',
       Errorf ''Cluster c1 doesnt have any operator roles associated with it'',
       RemoteRead ''IsUpgradedNeededForAccountRolePolicies'',
       RemoteRead ''GetCredRequests'',
       RemoteRead ''IsUpgradedNeededForOperatorRolePoliciesUsingPrefix'',
       RemoteRead ''FindMissingOperatorRolesForUpgrade'',
       Infof ''Operator roles associated with the cluster c1 are already up-to-date.''])"
  by code_simp

text \<open>What holds of the creation loop: a declined question skips that role within the pass, and
  a failed creation ends the command with code 1 at once, with nothing undone.\<close>

lemma upgradeMissingOperatorRole_declined:
  assumes "\<not> confirmPrompt w h (''Create the '' @ GetOperatorRoleName w operator @ '' role?'')"
  shows "upgradeMissingOperatorRole w cluster accountID prefix' policies path (operator # rest) h =
         upgradeMissingOperatorRole w cluster accountID prefix' policies path rest
           (h @ [ConfirmPrompt (''Create the '' @ GetOperatorRoleName w operator @ '' role?'') False])"
  using assms by (simp add: confirm_def prog_defs Let_def)

lemma createMissingRoles_creation_failure:
  assumes "CheckRoleExists w h (GetOperatorRoleName w operator) = Inr False"
    and "createOperatorRole w mode cluster prefix' missing policies path
           (h @ [CallCheckRoleExists (GetOperatorRoleName w operator) False]) = (Return (Some e), h')"
  shows "createMissingRoles w mode cluster prefix' missing policies path (operator # rest) n h =
           (Exit 1, h' @ [Errorf e])"
  using assms by (simp add: prog_defs Let_def)

text \<open>
  C7. The claim: in automatic mode each missing role that does not exist gets exactly one
  creation sequence. With two missing roles a and b, neither existing, and the second
  question declined, the first pass creates a and skips b; the check of b then starts a
  second pass over both roles, and a is created a second time.
\<close>

theorem run_creates_role_twice:
  "fst (run world0 []) = Return None \<and>
   ensuredRoles (snd (run world0 [])) = [''a'', ''a'', ''b'']"
  by code_simp


lemma not_current_outcome:
  assumes "IsUpgradedNeededForAccountRolePolicies w = Inr True"
  shows "fst (run w h) = Exit 1 \<or>
         (fst (run w h) = Exit 0 \<and> upgradeVersion w \<noteq> '''' \<and> GetAvailableUpgrades w = Inr [])"
  using assms
  by (auto simp: run_def prog_defs Let_def split: sum.splits prod.splits)








lemma foundMissing_append [simp]: "foundMissing (a @ b) = foundMissing a @ foundMissing b"
  by (simp add: foundMissing_def)

lemma foundMissing_Nil [simp]: "foundMissing [] = []"
  by (simp add: foundMissing_def)

lemma manual_createOperatorRole_run:
  assumes "BuildMissingOperatorRoleCommand w = (\<lambda>h. Inr commands)"
  shows "\<exists>t. createOperatorRole w ModeManual cluster prefix' missing policies path h
              = (Return None, h @ t) \<and> foundMissing t = []"
  using assms
  by (simp add: createOperatorRole_def prog_defs Let_def ModeAuto_def ModeManual_def
      foundMissing_def)

lemma foundMissing_check [simp]:
  "foundMissing (CallCheckRoleExists n exists # t) =
     (if exists then [] else [n]) @ foundMissing t"
  by (simp add: foundMissing_def)

lemma manual_createMissingRoles_run:
  assumes "CheckRoleExists w = (\<lambda>h n. Inr (n \<in> set awsRoles))"
    and "BuildMissingOperatorRoleCommand w = (\<lambda>h. Inr commands)"
  shows "\<exists>h'. createMissingRoles w ModeManual cluster prefix' missing policies path ops n h =
           (Return (Inr (n + length (filter (\<lambda>operator. GetOperatorRoleName w operator \<notin> set awsRoles) ops))), h')
         \<and> foundMissing h' =
             foundMissing h @ filter (\<lambda>name. name \<notin> set awsRoles) (map (GetOperatorRoleName w) ops)"
proof (induction ops arbitrary: n h)
  case Nil
  show ?case by (simp add: ret_def)
next
  case (Cons operator rest)
  let ?name = "GetOperatorRoleName w operator"
  let ?count = "\<lambda>ops. length (filter (\<lambda>operator. GetOperatorRoleName w operator \<notin> set awsRoles) ops)"
  let ?names = "\<lambda>ops. filter (\<lambda>name. name \<notin> set awsRoles) (map (GetOperatorRoleName w) ops)"
  show ?case
  proof (cases "?name \<in> set awsRoles")
    case True
    let ?h1 = "h @ [CallCheckRoleExists ?name True]"
    from Cons.IH[of n ?h1] obtain h' where
      h': "createMissingRoles w ModeManual cluster prefix' missing policies path rest n ?h1 =
             (Return (Inr (n + ?count rest)), h')"
          "foundMissing h' = foundMissing ?h1 @ ?names rest"
      by blast
    have "createMissingRoles w ModeManual cluster prefix' missing policies path (operator # rest) n h
          = (Return (Inr (n + ?count (operator # rest))), h')"
      using True h'(1)
      by (simp add: assms(1) andThen_def ask_def followedBy_def emit_def)
    moreover have "foundMissing h' = foundMissing h @ ?names (operator # rest)"
      using True h'(2) by simp
    ultimately show ?thesis by blast
  next
    case False
    let ?h1 = "h @ [CallCheckRoleExists ?name False]"
    obtain t where t: "createOperatorRole w ModeManual cluster prefix' missing policies path ?h1
         = (Return None, ?h1 @ t)" "foundMissing t = []"
      using manual_createOperatorRole_run[OF assms(2)] by blast
    from Cons.IH[of "n + 1" "?h1 @ t"] obtain h' where
      h': "createMissingRoles w ModeManual cluster prefix' missing policies path rest (n + 1)
             (?h1 @ t) = (Return (Inr (n + 1 + ?count rest)), h')"
          "foundMissing h' = foundMissing (?h1 @ t) @ ?names rest"
      by blast
    have "createMissingRoles w ModeManual cluster prefix' missing policies path (operator # rest) n h
          = (Return (Inr (n + ?count (operator # rest))), h')"
      using False h'(1) t(1)
      by (simp add: assms(1) andThen_def ask_def followedBy_def emit_def)
    moreover have "foundMissing h' = foundMissing h @ ?names (operator # rest)"
      using False h'(2) t(2) by simp
    ultimately show ?thesis by blast
  qed
qed

text \<open>
  In manual mode, where a run changes nothing remotely, with the missing roles given by
  the detection of the cluster service as the spec describes it and the existence check of
  the cloud account answering from a fixed set of existing roles, the roles the loop finds
  missing are exactly the roles of the required operators that neither the cluster nor the
  cloud account has: the required roles minus the existing ones.
\<close>

lemma manual_missing_role_detection:
  assumes "CheckRoleExists w = (\<lambda>h n. Inr (n \<in> set awsRoles))"
    and "BuildMissingOperatorRoleCommand w = (\<lambda>h. Inr commands)"
  shows "(let missing = FindMissingOperatorRolesForUpgrade_spec cluster required in
          set (foundMissing (snd (createMissingRoles w ModeManual cluster prefix' missing policies
                 path (map snd missing) 0 [])))) =
         {GetOperatorRoleName w operator | operator.
            operator \<in> snd ` set required \<and> \<not> hasOperatorRole cluster operator \<and>
            GetOperatorRoleName w operator \<notin> set awsRoles}"
proof -
  let ?missing = "FindMissingOperatorRolesForUpgrade_spec cluster required"
  obtain h' where h': "createMissingRoles w ModeManual cluster prefix' ?missing policies
                 path (map snd ?missing) 0 [] =
           (Return (Inr (0 + length (filter (\<lambda>operator. GetOperatorRoleName w operator \<notin> set awsRoles) (map snd ?missing)))), h')"
     "foundMissing h' = foundMissing [] @ filter (\<lambda>name. name \<notin> set awsRoles)
          (map (GetOperatorRoleName w) (map snd ?missing))"
    using manual_createMissingRoles_run[OF assms] by blast
  have "set (foundMissing h') = {GetOperatorRoleName w operator | operator.
            operator \<in> snd ` set required \<and> \<not> hasOperatorRole cluster operator \<and>
            GetOperatorRoleName w operator \<notin> set awsRoles}"
    unfolding h'(2) by (force simp: FindMissingOperatorRolesForUpgrade_spec_def)
  with h'(1) show ?thesis by (simp add: Let_def)
qed

lemma manual_missing_role_detection_example:
  "CheckRoleExists world_detect = (\<lambda>h n. Inr (n \<in> set [''b''])) \<and>
   BuildMissingOperatorRoleCommand world_detect = (\<lambda>h. Inr ''create-role'') \<and>
   set (foundMissing (snd (createMissingRoles world_detect ModeManual cluster0 ''pre''
          (FindMissingOperatorRolesForUpgrade_spec cluster0 required0) (\<lambda>k. None) ''/''
          (map snd (FindMissingOperatorRolesForUpgrade_spec cluster0 required0)) 0 []))) = {''a''}"
proof -
  have check: "CheckRoleExists world_detect = (\<lambda>h n. Inr (n \<in> set [''b'']))"
    by (simp add: world_detect_def)
  have build: "BuildMissingOperatorRoleCommand world_detect = (\<lambda>h. Inr ''create-role'')"
    by (simp add: world_detect_def world_manual_def world0_def)
  have name: "GetOperatorRoleName world_detect = opName"
    by (simp add: world_detect_def world_manual_def world0_def)
  have difference:
    "{GetOperatorRoleName world_detect operator | operator.
        operator \<in> snd ` set required0 \<and> \<not> hasOperatorRole cluster0 operator \<and>
        GetOperatorRoleName world_detect operator \<notin> set [''b'']} = {''a''}"
  proof -
    have required: "snd ` set required0 = {opA, opB, opX}"
      by (simp add: required0_def)
    have has: "\<not> hasOperatorRole cluster0 opA" "\<not> hasOperatorRole cluster0 opB"
      "hasOperatorRole cluster0 opX"
      by (simp_all add: hasOperatorRole_def cluster0_def opA_def opB_def opX_def)
    have names: "opName opA = ''a''" "opName opB = ''b''" "opName opX = ''x''"
      by (simp_all add: opA_def opB_def opX_def)
    show ?thesis
      unfolding name required using has names by (auto intro: exI[of _ opA])
  qed
  show ?thesis
    using manual_missing_role_detection [OF check build, where cluster = cluster0
        and required = required0 and prefix' = "''pre''" and policies = "\<lambda>k. None"
        and path = "''/''"]
    unfolding difference
    by (simp add: check build Let_def)
qed


end
